theory Spec2Isabelle
  imports Complex_Main
begin

section \<open>The audio emotion analyzer (src/utils/audio-emotion-analyzer.py)\<close>

text \<open>
  The script is a linear pipeline: check the argument count, load the model, load the
  audio, run the classifier, print one JSON object. Everything it calls in the
  third-party libraries (transformers, librosa, the network of the model) is a field of
  an environment record; the code of the script itself is translated function by
  function. Python floats are modelled as \<open>real\<close>: rounding, infinities and NaN are
  outside the model.
\<close>

subsection \<open>Values: JSON, output lines, exceptions\<close>

text \<open>
  What \<^verbatim>\<open>json.dumps\<close> is applied to. A Python dict keeps its insertion order, so an
  object is an association list.
\<close>

datatype json =
    JString string
  | JNumber real
  | JBool bool
  | JObject "(string \<times> json) list"

text \<open>
  One \<^verbatim>\<open>print\<close> call. \<open>Json j\<close> is the line \<^verbatim>\<open>json.dumps(j)\<close>, \<open>Text s\<close> a plain
  line, \<open>Traceback c\<close> the interpreter's report of an uncaught exception of class \<open>c\<close>.
\<close>

datatype line = Text string | Json json | Traceback string

text \<open>
  An instance of \<^verbatim>\<open>Exception\<close> (what \<^verbatim>\<open>except Exception\<close> catches): \<open>str\<close> is
  \<^verbatim>\<open>str(e)\<close>, \<open>format_exc\<close> is what \<^verbatim>\<open>traceback.format_exc()\<close> returns while the
  exception is handled.
\<close>

datatype py_exception = PyException (str: string) (format_exc: string)

text \<open>The two streams of the process, each the list of lines printed so far.\<close>

record io =
  stdout :: "line list"
  stderr :: "line list"

definition print_stdout :: "line \<Rightarrow> io \<Rightarrow> io" where
  "print_stdout l s = s\<lparr>stdout := stdout s @ [l]\<rparr>"

definition print_stderr :: "line \<Rightarrow> io \<Rightarrow> io" where
  "print_stderr l s = s\<lparr>stderr := stderr s @ [l]\<rparr>"

subsection \<open>The libraries, as parameters\<close>

text \<open>
  \<open>'fe\<close> is the feature extractor, \<open>'m\<close> the classifier, \<open>'inp\<close> the tensor of input
  values. A call that raises returns \<open>Inl\<close> of the exception. The cache directory and
  \<^verbatim>\<open>local_files_only=False\<close> are constants of the two \<^verbatim>\<open>from_pretrained\<close> calls and
  are part of the parameter. The logits are a tensor of shape (batch, labels): a list of
  rows. What the libraries themselves print is not part of the model.
\<close>

record ('fe, 'm, 'inp) env =
  fe_from_pretrained :: "string \<Rightarrow> py_exception + 'fe"
  model_from_pretrained :: "string \<Rightarrow> py_exception + 'm"
  model_eval :: "'m \<Rightarrow> py_exception + unit"
  librosa_load :: "string \<Rightarrow> real \<Rightarrow> py_exception + (real list \<times> real)"
  feature_extractor_call :: "'fe \<Rightarrow> real list \<Rightarrow> real \<Rightarrow> py_exception + 'inp"
  model_logits :: "'m \<Rightarrow> 'inp \<Rightarrow> py_exception + real list list"

subsection \<open>Constants\<close>

definition MODEL_NAME :: string where
  "MODEL_NAME = ''ehcalabres/wav2vec2-lg-xlsr-en-speech-emotion-recognition''"

definition EMOTIONS :: "string list" where
  "EMOTIONS = [''angry'', ''calm'', ''disgust'', ''fearful'', ''happy'', ''neutral'',
     ''sad'', ''surprised'']"

subsection \<open>Built-ins the script uses\<close>

text \<open>\<^verbatim>\<open>torch.nn.functional.softmax\<close> along the last dimension, on one row.\<close>

definition softmax :: "real list \<Rightarrow> real list" where
  "softmax xs = map (\<lambda>x. exp x / sum_list (map exp xs)) xs"

text \<open>
  \<^verbatim>\<open>d[k] = v\<close> on an insertion-ordered dict: a key already there keeps its place and
  takes the new value, a new key goes last.
\<close>

fun dict_setitem :: "('k \<times> 'v) list \<Rightarrow> 'k \<Rightarrow> 'v \<Rightarrow> ('k \<times> 'v) list" where
  "dict_setitem [] k v = [(k, v)]"
| "dict_setitem ((k', v') # d) k v =
     (if k' = k then (k', v) # d else (k', v') # dict_setitem d k v)"

text \<open>The dict comprehension \<^verbatim>\<open>{k: v for k, v in kvs}\<close>.\<close>

definition dict_comprehension :: "('k \<times> 'v) list \<Rightarrow> ('k \<times> 'v) list" where
  "dict_comprehension kvs = foldl (\<lambda>d (k, v). dict_setitem d k v) [] kvs"

text \<open>
  \<^verbatim>\<open>max(xs, key=key)\<close>: the running maximum is replaced only by an element whose key
  is strictly greater, and an empty argument raises ValueError. The message of the
  ValueError is the one of CPython 3.12; older interpreters word it differently.
  \<^verbatim>\<open>probs[0]\<close> on a tensor with no row raises IndexError.
\<close>

fun max_from :: "('a \<Rightarrow> real) \<Rightarrow> 'a \<Rightarrow> 'a list \<Rightarrow> 'a" where
  "max_from key best [] = best"
| "max_from key best (x # xs) = max_from key (if key x > key best then x else best) xs"

definition ValueError_max :: py_exception where
  "ValueError_max = PyException ''max() iterable argument is empty'' ''ValueError''"

definition IndexError_probs :: py_exception where
  "IndexError_probs =
     PyException ''index 0 is out of bounds for dimension 0 with size 0'' ''IndexError''"

definition py_max :: "('a \<Rightarrow> real) \<Rightarrow> 'a list \<Rightarrow> py_exception + 'a" where
  "py_max key xs = (case xs of [] \<Rightarrow> Inl ValueError_max | x # rest \<Rightarrow> Inr (max_from key x rest))"

subsection \<open>load_model\<close>

text \<open>The body of the \<^verbatim>\<open>try\<close> block of \<^verbatim>\<open>load_model\<close>.\<close>

definition load_model_try :: "('fe, 'm, 'inp) env \<Rightarrow> py_exception + ('fe \<times> 'm)" where
  "load_model_try env =
     (case fe_from_pretrained env MODEL_NAME of
        Inl e \<Rightarrow> Inl e
      | Inr feature_extractor \<Rightarrow>
          (case model_from_pretrained env MODEL_NAME of
             Inl e \<Rightarrow> Inl e
           | Inr model \<Rightarrow>
               (case model_eval env model of
                  Inl e \<Rightarrow> Inl e
                | Inr _ \<Rightarrow> Inr (feature_extractor, model))))"

text \<open>
  A function of the script returns the streams and either \<open>Inl code\<close>, when it called
  \<^verbatim>\<open>sys.exit(code)\<close>, or \<open>Inr\<close> of its value.
\<close>

definition load_model :: "('fe, 'm, 'inp) env \<Rightarrow> io \<Rightarrow> io \<times> (int + ('fe \<times> 'm))" where
  "load_model env s =
     (case load_model_try env of
        Inr r \<Rightarrow> (s, Inr r)
      | Inl e \<Rightarrow>
          (print_stderr (Json (JObject
             [(''error'', JString (''Failed to load model: '' @ str e)),
              (''traceback'', JString (format_exc e))])) s,
           Inl 1))"

subsection \<open>load_audio\<close>

definition load_audio ::
  "('fe, 'm, 'inp) env \<Rightarrow> string \<Rightarrow> real \<Rightarrow> io \<Rightarrow> io \<times> (int + (real list \<times> real))" where
  "load_audio env file_path target_sr s =
     (case librosa_load env file_path target_sr of
        Inr (audio, sr) \<Rightarrow> (s, Inr (audio, sr))
      | Inl e \<Rightarrow>
          (print_stderr (Json (JObject
             [(''error'', JString (''Failed to load audio: '' @ str e))])) s,
           Inl 1))"

subsection \<open>analyze_emotion\<close>

record emotion_result =
  primary :: string
  confidence :: real
  all :: "(string \<times> real) list"

text \<open>The body of the \<^verbatim>\<open>try\<close> block of \<^verbatim>\<open>analyze_emotion\<close>.\<close>

definition analyze_emotion_try ::
  "('fe, 'm, 'inp) env \<Rightarrow> real list \<Rightarrow> real \<Rightarrow> 'fe \<Rightarrow> 'm \<Rightarrow> py_exception + emotion_result" where
  "analyze_emotion_try env audio sample_rate feature_extractor model =
     (case feature_extractor_call env feature_extractor audio sample_rate of
        Inl e \<Rightarrow> Inl e
      | Inr inputs \<Rightarrow>
          (case model_logits env model inputs of
             Inl e \<Rightarrow> Inl e
           | Inr logits \<Rightarrow>
               (case map softmax logits of
                  [] \<Rightarrow> Inl IndexError_probs
                | scores # _ \<Rightarrow>
                    (let emotion_scores = dict_comprehension (zip EMOTIONS scores)
                     in case py_max snd emotion_scores of
                          Inl e \<Rightarrow> Inl e
                        | Inr primary_emotion \<Rightarrow>
                            Inr \<lparr>primary = fst primary_emotion,
                                 confidence = snd primary_emotion,
                                 all = emotion_scores\<rparr>))))"

definition analyze_emotion ::
  "('fe, 'm, 'inp) env \<Rightarrow> real list \<Rightarrow> real \<Rightarrow> 'fe \<Rightarrow> 'm \<Rightarrow> io \<Rightarrow> io \<times> (int + emotion_result)" where
  "analyze_emotion env audio sample_rate feature_extractor model s =
     (case analyze_emotion_try env audio sample_rate feature_extractor model of
        Inr r \<Rightarrow> (s, Inr r)
      | Inl e \<Rightarrow>
          (print_stderr (Json (JObject
             [(''error'', JString (''Failed to analyze emotion: '' @ str e))])) s,
           Inl 1))"

subsection \<open>main\<close>

text \<open>The dict \<^verbatim>\<open>analyze_emotion\<close> returns, as \<^verbatim>\<open>json.dumps\<close> sees it.\<close>

definition json_of_emotion :: "emotion_result \<Rightarrow> json" where
  "json_of_emotion r =
     JObject [(''primary'', JString (primary r)),
              (''confidence'', JNumber (confidence r)),
              (''all'', JObject (map (\<lambda>(k, v). (k, JNumber v)) (all r)))]"

text \<open>
  \<open>main env argv\<close> is a whole run of the process on \<^verbatim>\<open>sys.argv = argv\<close>: the two
  streams at the end and the exit status. \<^verbatim>\<open>len(audio) / sr\<close> stands outside every
  \<^verbatim>\<open>try\<close>: with \<open>sr = 0\<close> the ZeroDivisionError is uncaught, the interpreter prints
  its traceback on standard error and the status is 1.
\<close>

definition main :: "('fe, 'm, 'inp) env \<Rightarrow> string list \<Rightarrow> io \<times> int" where
  "main env argv =
     (let s0 = \<lparr>stdout = [], stderr = []\<rparr> in
      if length argv \<noteq> 2 then
        (print_stderr (Json (JObject
           [(''error'', JString ''Usage: audio-emotion-analyzer.py <audio_file_path>'')])) s0,
         1)
      else
        let audio_file = argv ! 1;
            s1 = print_stderr (Text ''Loading emotion recognition model...'') s0
        in case load_model env s1 of
             (s2, Inl code) \<Rightarrow> (s2, code)
           | (s2, Inr (feature_extractor, model)) \<Rightarrow>
               (let s3 = print_stderr (Text (''Loading audio file: '' @ audio_file)) s2
                in case load_audio env audio_file 16000 s3 of
                     (s4, Inl code) \<Rightarrow> (s4, code)
                   | (s4, Inr (audio, sr)) \<Rightarrow>
                       (let s5 = print_stderr (Text ''Analyzing emotions...'') s4
                        in case analyze_emotion env audio sr feature_extractor model s5 of
                             (s6, Inl code) \<Rightarrow> (s6, code)
                           | (s6, Inr emotion_result) \<Rightarrow>
                               (if sr = 0 then
                                  (print_stderr (Traceback ''ZeroDivisionError'') s6, 1)
                                else
                                  (print_stdout (Json (JObject
                                     [(''success'', JBool True),
                                      (''emotion'', json_of_emotion emotion_result),
                                      (''audio_duration'', JNumber (real (length audio) / sr))])) s6,
                                   0)))))"

subsection \<open>Concrete environments\<close>

text \<open>
  Environments with no state in the library objects (\<open>'fe\<close>, \<open>'m\<close> and \<open>'inp\<close> are
  \<open>unit\<close>): every call succeeds, the audio file decodes to \<open>samples\<close> at the rate asked
  for, and the classifier answers with the single row \<open>row\<close> of logits.
\<close>

definition fixed_env :: "real list \<Rightarrow> real list \<Rightarrow> (unit, unit, unit) env" where
  "fixed_env samples row =
     \<lparr>fe_from_pretrained = (\<lambda>name. Inr ()),
      model_from_pretrained = (\<lambda>name. Inr ()),
      model_eval = (\<lambda>model. Inr ()),
      librosa_load = (\<lambda>file_path target_sr. Inr (samples, target_sr)),
      feature_extractor_call = (\<lambda>fe audio sample_rate. Inr ()),
      model_logits = (\<lambda>model inputs. Inr [row])\<rparr>"

text \<open>An environment whose model download fails with the exception \<open>e\<close>.\<close>

definition offline_env :: "py_exception \<Rightarrow> (unit, unit, unit) env" where
  "offline_env e = (fixed_env [] [])\<lparr>model_from_pretrained := (\<lambda>name. Inl e)\<rparr>"

text \<open>An environment whose audio file cannot be decoded: \<^verbatim>\<open>librosa.load\<close> raises \<open>e\<close>.\<close>

definition unreadable_env :: "py_exception \<Rightarrow> (unit, unit, unit) env" where
  "unreadable_env e = (fixed_env [] [])\<lparr>librosa_load := (\<lambda>file_path target_sr. Inl e)\<rparr>"

text \<open>An exception of a failed download.\<close>

definition connection_error :: py_exception where
  "connection_error =
     PyException ''Connection error'' ''Traceback (most recent call last): OSError''"

text \<open>
  Two seconds of silence at 16 kHz, and a classifier that scores the eight labels alike.
\<close>

definition silence_env :: "(unit, unit, unit) env" where
  "silence_env = fixed_env (replicate 32000 0) [0, 0, 0, 0, 0, 0, 0, 0]"

text \<open>What the analysis returns on uniform logits.\<close>

definition uniform_result :: emotion_result where
  "uniform_result =
     \<lparr>primary = ''angry'', confidence = 1 / 8,
      all = [(''angry'', 1 / 8), (''calm'', 1 / 8), (''disgust'', 1 / 8), (''fearful'', 1 / 8),
             (''happy'', 1 / 8), (''neutral'', 1 / 8), (''sad'', 1 / 8), (''surprised'', 1 / 8)]\<rparr>"

text \<open>
  What the analysis returns on three equal logits, and on ten equal logits (the zip
  keeps the first eight scores).
\<close>

definition three_label_result :: emotion_result where
  "three_label_result =
     \<lparr>primary = ''angry'', confidence = 1 / 3,
      all = [(''angry'', 1 / 3), (''calm'', 1 / 3), (''disgust'', 1 / 3)]\<rparr>"

definition ten_logit_result :: emotion_result where
  "ten_logit_result =
     \<lparr>primary = ''angry'', confidence = 1 / 10,
      all = [(''angry'', 1 / 10), (''calm'', 1 / 10), (''disgust'', 1 / 10),
             (''fearful'', 1 / 10), (''happy'', 1 / 10), (''neutral'', 1 / 10),
             (''sad'', 1 / 10), (''surprised'', 1 / 10)]\<rparr>"

text \<open>The streams when the process starts.\<close>

definition s0 :: io where
  "s0 = \<lparr>stdout = [], stderr = []\<rparr>"

text \<open>
  The contract of \<^verbatim>\<open>librosa.load(path, sr=target_sr)\<close> with a rate given: the rate it
  returns is the rate it was asked to resample to.
\<close>

definition librosa_returns_target_sr :: "('fe, 'm, 'inp) env \<Rightarrow> bool" where
  "librosa_returns_target_sr env =
     (\<forall>file_path target_sr audio sr.
        librosa_load env file_path target_sr = Inr (audio, sr) \<longrightarrow> sr = target_sr)"

section \<open>Properties\<close>

subsection \<open>The label list and the dict of scores\<close>

lemma distinct_EMOTIONS: "distinct EMOTIONS"
  by (simp add: EMOTIONS_def)

lemma length_EMOTIONS: "length EMOTIONS = 8"
  by (simp add: EMOTIONS_def)

lemma dict_setitem_fresh: "k \<notin> fst ` set d \<Longrightarrow> dict_setitem d k v = d @ [(k, v)]"
  by (induction d) auto

lemma foldl_dict_setitem:
  "distinct (map fst d @ map fst kvs) \<Longrightarrow>
   foldl (\<lambda>d (k, v). dict_setitem d k v) d kvs = d @ kvs"
proof (induction kvs arbitrary: d)
  case Nil
  then show ?case by simp
next
  case (Cons kv kvs)
  obtain k v where kv: "kv = (k, v)" by (cases kv)
  from Cons.prems kv have fresh: "k \<notin> fst ` set d" by auto
  from Cons.prems kv have "distinct (map fst (d @ [(k, v)]) @ map fst kvs)" by auto
  from Cons.IH [OF this] show ?case
    by (simp add: kv dict_setitem_fresh [OF fresh])
qed

lemma dict_comprehension_distinct:
  "distinct (map fst kvs) \<Longrightarrow> dict_comprehension kvs = kvs"
  using foldl_dict_setitem [of "[]" kvs] by (simp add: dict_comprehension_def)

lemma emotion_scores_zip: "dict_comprehension (zip EMOTIONS scores) = zip EMOTIONS scores"
proof -
  have "distinct (map fst (zip EMOTIONS scores))"
    by (simp add: map_fst_zip_take distinct_take distinct_EMOTIONS)
  then show ?thesis by (rule dict_comprehension_distinct)
qed

subsection \<open>max with a key returns the first maximum\<close>

text \<open>
  Either the running maximum survives the whole list, or the result is the first
  element that beats everything before it and is not beaten after it.
\<close>

lemma max_from_spec:
  "(max_from key best xs = best \<and> (\<forall>x \<in> set xs. key x \<le> key best)) \<or>
   (\<exists>i < length xs. max_from key best xs = xs ! i \<and> key best < key (xs ! i) \<and>
       (\<forall>j < i. key (xs ! j) < key (xs ! i)) \<and> (\<forall>x \<in> set xs. key x \<le> key (xs ! i)))"
proof (induction xs arbitrary: best)
  case Nil
  then show ?case by simp
next
  case (Cons x xs)
  define b where "b = (if key x > key best then x else best)"
  have b_ge: "key best \<le> key b" "key x \<le> key b"
    by (auto simp: b_def)
  have step: "max_from key best (x # xs) = max_from key b xs"
    by (simp add: b_def)
  from Cons.IH [of b] show ?case
  proof
    assume a: "max_from key b xs = b \<and> (\<forall>y \<in> set xs. key y \<le> key b)"
    show ?thesis
    proof (cases "key x > key best")
      case True
      then have "b = x" by (simp add: b_def)
      with a True step have "0 < length (x # xs) \<and> max_from key best (x # xs) = (x # xs) ! 0 \<and>
            key best < key ((x # xs) ! 0) \<and> (\<forall>j < 0. key ((x # xs) ! j) < key ((x # xs) ! 0)) \<and>
            (\<forall>y \<in> set (x # xs). key y \<le> key ((x # xs) ! 0))"
        by simp
      then show ?thesis by blast
    next
      case False
      then have "b = best" by (simp add: b_def)
      with a False step show ?thesis by auto
    qed
  next
    assume "\<exists>i < length xs. max_from key b xs = xs ! i \<and> key b < key (xs ! i) \<and>
       (\<forall>j < i. key (xs ! j) < key (xs ! i)) \<and> (\<forall>y \<in> set xs. key y \<le> key (xs ! i))"
    then obtain i where i: "i < length xs" "max_from key b xs = xs ! i" "key b < key (xs ! i)"
      "\<forall>j < i. key (xs ! j) < key (xs ! i)" "\<forall>y \<in> set xs. key y \<le> key (xs ! i)"
      by blast
    have before: "\<forall>j < Suc i. key ((x # xs) ! j) < key (xs ! i)"
    proof (intro allI impI)
      fix j assume "j < Suc i"
      then show "key ((x # xs) ! j) < key (xs ! i)"
        using i(3,4) b_ge(2) by (cases j) auto
    qed
    have "Suc i < length (x # xs) \<and> max_from key best (x # xs) = (x # xs) ! Suc i \<and>
          key best < key ((x # xs) ! Suc i) \<and>
          (\<forall>j < Suc i. key ((x # xs) ! j) < key ((x # xs) ! Suc i)) \<and>
          (\<forall>y \<in> set (x # xs). key y \<le> key ((x # xs) ! Suc i))"
      using i b_ge before step by auto
    then show ?thesis by blast
  qed
qed

lemma max_from_first_max:
  "\<exists>i < length (x # xs). max_from key x xs = (x # xs) ! i \<and>
      (\<forall>j < i. key ((x # xs) ! j) < key ((x # xs) ! i)) \<and>
      (\<forall>y \<in> set (x # xs). key y \<le> key ((x # xs) ! i))"
proof -
  from max_from_spec [of key x xs] show ?thesis
  proof
    assume "max_from key x xs = x \<and> (\<forall>y \<in> set xs. key y \<le> key x)"
    then have "0 < length (x # xs) \<and> max_from key x xs = (x # xs) ! 0 \<and>
      (\<forall>j < 0. key ((x # xs) ! j) < key ((x # xs) ! 0)) \<and>
      (\<forall>y \<in> set (x # xs). key y \<le> key ((x # xs) ! 0))" by simp
    then show ?thesis by blast
  next
    assume "\<exists>i < length xs. max_from key x xs = xs ! i \<and> key x < key (xs ! i) \<and>
       (\<forall>j < i. key (xs ! j) < key (xs ! i)) \<and> (\<forall>y \<in> set xs. key y \<le> key (xs ! i))"
    then obtain i where i: "i < length xs" "max_from key x xs = xs ! i"
        "key x < key (xs ! i)"
        "\<forall>j < i. key (xs ! j) < key (xs ! i)" "\<forall>y \<in> set xs. key y \<le> key (xs ! i)"
      by blast
    have before: "\<forall>j < Suc i. key ((x # xs) ! j) < key (xs ! i)"
    proof (intro allI impI)
      fix j assume "j < Suc i"
      then show "key ((x # xs) ! j) < key (xs ! i)"
        using i(3,4) by (cases j) auto
    qed
    have "Suc i < length (x # xs) \<and> max_from key x xs = (x # xs) ! Suc i \<and>
      (\<forall>j < Suc i. key ((x # xs) ! j) < key ((x # xs) ! Suc i)) \<and>
      (\<forall>y \<in> set (x # xs). key y \<le> key ((x # xs) ! Suc i))"
      using i before by auto
    then show ?thesis by blast
  qed
qed

subsection \<open>Softmax is a probability distribution\<close>

lemma sum_list_exp_nonneg: "0 \<le> sum_list (map exp (ys :: real list))"
  by (rule sum_list_nonneg) auto

lemma exp_le_sum_list: "x \<in> set xs \<Longrightarrow> exp x \<le> sum_list (map exp (xs :: real list))"
proof (induction xs)
  case Nil
  then show ?case by simp
next
  case (Cons y ys)
  show ?case
  proof (cases "x = y")
    case True
    then show ?thesis using sum_list_exp_nonneg [of ys] by simp
  next
    case False
    with Cons have "exp x \<le> sum_list (map exp ys)" by simp
    moreover have "0 < exp y" by (rule exp_gt_zero)
    moreover have "sum_list (map exp (y # ys)) = exp y + sum_list (map exp ys)" by simp
    ultimately show ?thesis by linarith
  qed
qed

lemma sum_list_exp_pos: "xs \<noteq> [] \<Longrightarrow> 0 < sum_list (map exp (xs :: real list))"
proof -
  assume "xs \<noteq> []"
  then obtain x where "x \<in> set xs" by (cases xs) auto
  from exp_le_sum_list [OF this] exp_gt_zero [of x] show ?thesis by linarith
qed

lemma sum_list_softmax: "xs \<noteq> [] \<Longrightarrow> sum_list (softmax xs) = 1"
proof -
  assume ne: "xs \<noteq> []"
  have "sum_list (map (\<lambda>x. exp x / c) xs) = sum_list (map exp xs) / c" for c :: real
    by (induction xs) (auto simp: add_divide_distrib)
  then show ?thesis using sum_list_exp_pos [OF ne] by (simp add: softmax_def)
qed

lemma softmax_range: "p \<in> set (softmax xs) \<Longrightarrow> 0 \<le> p \<and> p \<le> 1"
proof -
  assume "p \<in> set (softmax xs)"
  then obtain x where x: "x \<in> set xs" "p = exp x / sum_list (map exp xs)"
    by (auto simp: softmax_def)
  from x(1) have le: "exp x \<le> sum_list (map exp xs)" by (rule exp_le_sum_list)
  from x(1) have "xs \<noteq> []" by auto
  then have pos: "0 < sum_list (map exp xs)" by (rule sum_list_exp_pos)
  show ?thesis using x(2) le pos by simp
qed

lemma length_softmax: "length (softmax xs) = length xs"
  by (simp add: softmax_def)

subsection \<open>What a successful analysis returns\<close>

lemma analyze_emotion_try_Inr:
  assumes "analyze_emotion_try env audio sample_rate fe m = Inr r"
  shows "\<exists>inputs row rest p ps.
           feature_extractor_call env fe audio sample_rate = Inr inputs \<and>
           model_logits env m inputs = Inr (row # rest) \<and>
           zip EMOTIONS (softmax row) = p # ps \<and>
           r = \<lparr>primary = fst (max_from snd p ps), confidence = snd (max_from snd p ps),
                all = p # ps\<rparr>"
  using assms
  by (auto simp: analyze_emotion_try_def emotion_scores_zip py_max_def Let_def
           split: sum.splits list.splits)

lemma analyze_emotion_Inr:
  "analyze_emotion env audio sample_rate fe m s = (s', Inr r) \<longleftrightarrow>
   s' = s \<and> analyze_emotion_try env audio sample_rate fe m = Inr r"
  by (auto simp: analyze_emotion_def split: sum.splits)

lemma analyze_emotion_try_row:
  assumes "feature_extractor_call env fe audio sample_rate = Inr inputs"
    and "model_logits env m inputs = Inr (row # rest)"
    and "row \<noteq> []"
  shows "\<exists>r. analyze_emotion_try env audio sample_rate fe m = Inr r \<and>
             all r = zip EMOTIONS (softmax row)"
proof -
  from assms(3) obtain p ps where "zip EMOTIONS (softmax row) = p # ps"
    by (cases row) (auto simp: EMOTIONS_def softmax_def)
  moreover from this have "dict_comprehension (p # ps) = p # ps"
    using emotion_scores_zip [of "softmax row"] by simp
  ultimately show ?thesis
    using assms(1,2) by (simp add: analyze_emotion_try_def py_max_def)
qed

lemma analyze_emotion_try_empty_row:
  assumes "feature_extractor_call env fe audio sample_rate = Inr inputs"
    and "model_logits env m inputs = Inr ([] # rest)"
  shows "analyze_emotion_try env audio sample_rate fe m = Inl ValueError_max"
  using assms
  by (simp add: analyze_emotion_try_def softmax_def dict_comprehension_def py_max_def)

lemma analyze_emotion_try_silence:
  "analyze_emotion_try silence_env audio sr () () = Inr uniform_result"
  by (simp add: analyze_emotion_try_def silence_env_def fixed_env_def softmax_def
        EMOTIONS_def dict_comprehension_def py_max_def uniform_result_def)

lemma analyze_emotion_silence:
  "analyze_emotion silence_env audio sr () () s = (s, Inr uniform_result)"
  by (simp add: analyze_emotion_def analyze_emotion_try_silence)

lemma load_model_try_fixed: "load_model_try (fixed_env samples row) = Inr ((), ())"
  by (simp add: load_model_try_def fixed_env_def)

lemma librosa_load_fixed:
  "librosa_load (fixed_env samples row) file_path target_sr = Inr (samples, target_sr)"
  by (simp add: fixed_env_def)

subsection \<open>The primary emotion\<close>

text \<open>
  Claim C1. Whenever \<^verbatim>\<open>analyze_emotion\<close> returns a result, looking \<open>primary\<close> up in
  the \<open>all\<close> mapping gives \<open>confidence\<close>, and no label of the mapping has a greater
  probability: \<open>primary\<close> is a label of maximal probability and \<open>confidence\<close> is
  that maximum.
\<close>

theorem primary_is_argmax:
  assumes "analyze_emotion env audio sample_rate fe m s = (s', Inr r)"
  shows "map_of (all r) (primary r) = Some (confidence r) \<and>
         (\<forall>label p. map_of (all r) label = Some p \<longrightarrow> p \<le> confidence r)"
proof -
  from assms have "analyze_emotion_try env audio sample_rate fe m = Inr r"
    by (simp add: analyze_emotion_Inr)
  from analyze_emotion_try_Inr [OF this] obtain row p ps where
    z: "zip EMOTIONS (softmax row) = p # ps" and
    r: "r = \<lparr>primary = fst (max_from snd p ps), confidence = snd (max_from snd p ps),
             all = p # ps\<rparr>"
    by blast
  have dist: "distinct (map fst (p # ps))"
    unfolding z [symmetric] by (simp add: map_fst_zip_take distinct_take distinct_EMOTIONS)
  from max_from_first_max [of p ps snd] obtain i where
    i: "i < length (p # ps)" "max_from snd p ps = (p # ps) ! i"
       "\<forall>y \<in> set (p # ps). snd y \<le> snd ((p # ps) ! i)"
    by blast
  from i(1,2) have mem: "max_from snd p ps \<in> set (p # ps)"
    by (metis nth_mem)
  have "map_of (p # ps) (fst (max_from snd p ps)) = Some (snd (max_from snd p ps))"
    using dist mem by (intro map_of_is_SomeI) auto
  moreover have "q \<le> snd (max_from snd p ps)" if "map_of (p # ps) label = Some q" for label q
  proof -
    from that have "(label, q) \<in> set (p # ps)" by (rule map_of_SomeD)
    with i(2,3) show ?thesis by fastforce
  qed
  ultimately show ?thesis by (simp add: r)
qed

theorem primary_is_argmax_witness:
  "analyze_emotion silence_env [] 16000 () () s0 = (s0, Inr uniform_result) \<and>
   map_of (all uniform_result) (primary uniform_result) = Some (confidence uniform_result) \<and>
   map_of (all uniform_result) ''sad'' = Some (1 / 8) \<and> 1 / 8 \<le> confidence uniform_result"
proof -
  have h: "analyze_emotion silence_env [] 16000 () () s0 = (s0, Inr uniform_result)"
    by (rule analyze_emotion_silence)
  have sad: "map_of (all uniform_result) ''sad'' = Some (1 / 8)"
    by (simp add: uniform_result_def)
  from primary_is_argmax [OF h] sad h show ?thesis by blast
qed

text \<open>
  Claim C9. The labels of \<open>all\<close> stand in the order of \<open>EMOTIONS\<close>, and \<open>primary\<close>
  is the label at the first position that holds the maximal probability: every entry
  before it is strictly smaller, every entry is at most as large. Among labels that
  share the maximum, the earliest in \<open>EMOTIONS\<close> wins.
\<close>

theorem primary_tie_break:
  assumes "analyze_emotion env audio sample_rate fe m s = (s', Inr r)"
  shows "\<exists>i < length (all r).
           map fst (all r) = take (length (all r)) EMOTIONS \<and>
           primary r = EMOTIONS ! i \<and>
           all r ! i = (primary r, confidence r) \<and>
           (\<forall>j < i. snd (all r ! j) < confidence r) \<and>
           (\<forall>j < length (all r). snd (all r ! j) \<le> confidence r)"
proof -
  from assms have "analyze_emotion_try env audio sample_rate fe m = Inr r"
    by (simp add: analyze_emotion_Inr)
  from analyze_emotion_try_Inr [OF this] obtain row p ps where
    z: "zip EMOTIONS (softmax row) = p # ps" and
    r: "r = \<lparr>primary = fst (max_from snd p ps), confidence = snd (max_from snd p ps),
             all = p # ps\<rparr>"
    by blast
  have keys: "map fst (p # ps) = take (length (p # ps)) EMOTIONS"
    unfolding z [symmetric] by (simp add: map_fst_zip_take min_def)
  from max_from_first_max [of p ps snd] obtain i where
    i: "i < length (p # ps)" "max_from snd p ps = (p # ps) ! i"
       "\<forall>j < i. snd ((p # ps) ! j) < snd ((p # ps) ! i)"
       "\<forall>y \<in> set (p # ps). snd y \<le> snd ((p # ps) ! i)"
    by blast
  have "fst ((p # ps) ! i) = map fst (p # ps) ! i"
    using i(1) by (simp only: nth_map)
  also have "\<dots> = EMOTIONS ! i"
    using i(1) by (simp only: keys nth_take)
  finally have label: "fst ((p # ps) ! i) = EMOTIONS ! i" .
  have le: "\<forall>j < length (p # ps). snd ((p # ps) ! j) \<le> snd ((p # ps) ! i)"
    using i(4) by (metis nth_mem)
  have entry: "(p # ps) ! i = (EMOTIONS ! i, snd ((p # ps) ! i))"
    using label by (metis prod.collapse)
  have "i < length (all r) \<and>
           map fst (all r) = take (length (all r)) EMOTIONS \<and>
           primary r = EMOTIONS ! i \<and>
           all r ! i = (primary r, confidence r) \<and>
           (\<forall>j < i. snd (all r ! j) < confidence r) \<and>
           (\<forall>j < length (all r). snd (all r ! j) \<le> confidence r)"
    using i(1,2,3) keys label le entry by (simp add: r)
  then show ?thesis by blast
qed

theorem primary_tie_break_witness:
  "analyze_emotion silence_env [] 16000 () () s0 = (s0, Inr uniform_result) \<and>
   (\<exists>i < length (all uniform_result).
      primary uniform_result = EMOTIONS ! i \<and>
      all uniform_result ! i = (''angry'', 1 / 8))"
proof -
  have h: "analyze_emotion silence_env [] 16000 () () s0 = (s0, Inr uniform_result)"
    by (rule analyze_emotion_silence)
  from primary_tie_break [OF h] obtain i where
    "i < length (all uniform_result)" "primary uniform_result = EMOTIONS ! i"
    "all uniform_result ! i = (primary uniform_result, confidence uniform_result)"
    by blast
  then have "i < length (all uniform_result) \<and> primary uniform_result = EMOTIONS ! i \<and>
      all uniform_result ! i = (''angry'', 1 / 8)"
    by (simp add: uniform_result_def)
  with h show ?thesis by blast
qed

subsection \<open>The scores\<close>

text \<open>
  Claim C2, as amended. For a successful analysis whose logits row has exactly as many
  entries as there are labels (eight), the keys of \<open>all\<close> are exactly the eight labels of
  \<open>EMOTIONS\<close>, the values are the softmax of the row, each value lies in [0, 1], and
  the values sum to 1. (Floats are reals here, so the sum is exactly 1.)
\<close>

theorem all_is_softmax_distribution:
  assumes "analyze_emotion env audio sample_rate fe m s = (s', Inr r)"
    and "feature_extractor_call env fe audio sample_rate = Inr inputs"
    and "model_logits env m inputs = Inr (row # rest)"
    and "length row = length EMOTIONS"
  shows "map fst (all r) = EMOTIONS \<and> length (all r) = 8 \<and>
         map snd (all r) = softmax row \<and>
         (\<forall>p \<in> set (map snd (all r)). 0 \<le> p \<and> p \<le> 1) \<and>
         sum_list (map snd (all r)) = 1"
proof -
  from assms(4) have ne: "row \<noteq> []" by (auto simp: EMOTIONS_def)
  from analyze_emotion_try_row [OF assms(2,3) ne] assms(1)
  have a: "all r = zip EMOTIONS (softmax row)"
    by (auto simp: analyze_emotion_Inr)
  have len: "length (softmax row) = length EMOTIONS"
    using assms(4) by (simp add: length_softmax)
  have keys: "map fst (all r) = EMOTIONS"
    using len by (simp add: a)
  have vals: "map snd (all r) = softmax row"
    using len by (simp add: a)
  have "length (all r) = 8"
    using len by (simp add: a length_EMOTIONS)
  moreover have "\<forall>p \<in> set (map snd (all r)). 0 \<le> p \<and> p \<le> 1"
    unfolding vals using softmax_range by blast
  moreover have "sum_list (map snd (all r)) = 1"
    unfolding vals using ne by (rule sum_list_softmax)
  ultimately show ?thesis using keys vals by simp
qed

theorem all_is_softmax_distribution_witness:
  "analyze_emotion silence_env [] 16000 () () s0 = (s0, Inr uniform_result) \<and>
   feature_extractor_call silence_env () [] 16000 = Inr () \<and>
   model_logits silence_env () () = Inr ([0, 0, 0, 0, 0, 0, 0, 0] # []) \<and>
   length [0, 0, 0, 0, 0, 0, 0, 0 :: real] = length EMOTIONS \<and>
   map fst (all uniform_result) = EMOTIONS \<and>
   length (all uniform_result) = 8 \<and>
   sum_list (map snd (all uniform_result)) = 1"
proof -
  have h1: "analyze_emotion silence_env [] 16000 () () s0 = (s0, Inr uniform_result)"
    by (rule analyze_emotion_silence)
  have h2: "feature_extractor_call silence_env () [] 16000 = Inr ()"
    by (simp add: silence_env_def fixed_env_def)
  have h3: "model_logits silence_env () () = Inr ([0, 0, 0, 0, 0, 0, 0, 0] # [])"
    by (simp add: silence_env_def fixed_env_def)
  have h4: "length [0, 0, 0, 0, 0, 0, 0, 0 :: real] = length EMOTIONS"
    by (simp add: EMOTIONS_def)
  from all_is_softmax_distribution [OF h1 h2 h3 h4] h1 h2 h3 h4 show ?thesis by blast
qed

text \<open>
  Claim C2 as stated speaks of every successful analysis. The analysis also succeeds
  when the row has another length: on three logits the mapping has three labels only,
  and on ten logits it has the eight labels but their values sum to 4/5.
\<close>

theorem mismatched_logits_counterexample:
  "analyze_emotion (fixed_env [] [0, 0, 0]) [] 16000 () () s0 = (s0, Inr three_label_result) \<and>
   map fst (all three_label_result) = [''angry'', ''calm'', ''disgust''] \<and>
   map fst (all three_label_result) \<noteq> EMOTIONS \<and>
   analyze_emotion (fixed_env [] [0, 0, 0, 0, 0, 0, 0, 0, 0, 0]) [] 16000 () () s0 =
     (s0, Inr ten_logit_result) \<and>
   sum_list (map snd (all ten_logit_result)) = 4 / 5 \<and>
   sum_list (map snd (all ten_logit_result)) \<noteq> 1"
  by (simp add: fixed_env_def analyze_emotion_def analyze_emotion_try_def softmax_def
        EMOTIONS_def dict_comprehension_def py_max_def three_label_result_def
        ten_logit_result_def)

text \<open>
  Claim C3, as amended. The length of the logits row is never compared with the number
  of labels: for every non-empty row, of whatever length, \<^verbatim>\<open>analyze_emotion\<close> prints
  nothing and returns a result whose \<open>all\<close> mapping is the zip of \<open>EMOTIONS\<close> with the
  softmax of the row, cut to the shorter of the two.
\<close>

theorem no_length_check:
  assumes "feature_extractor_call env fe audio sample_rate = Inr inputs"
    and "model_logits env m inputs = Inr (row # rest)"
    and "row \<noteq> []"
  shows "\<exists>r. analyze_emotion env audio sample_rate fe m s = (s, Inr r) \<and>
             all r = zip EMOTIONS (softmax row) \<and>
             length (all r) = min 8 (length row)"
proof -
  from analyze_emotion_try_row [OF assms] obtain r where
    r: "analyze_emotion_try env audio sample_rate fe m = Inr r"
       "all r = zip EMOTIONS (softmax row)"
    by blast
  from r(2) have "length (all r) = min 8 (length row)"
    by (simp add: length_EMOTIONS length_softmax)
  with r show ?thesis by (simp add: analyze_emotion_Inr)
qed

theorem no_length_check_witness:
  "feature_extractor_call (fixed_env [] [0, 0, 0]) () [] 16000 = Inr () \<and>
   model_logits (fixed_env [] [0, 0, 0]) () () = Inr ([0, 0, 0] # []) \<and>
   [0, 0, 0 :: real] \<noteq> [] \<and> length [0, 0, 0 :: real] \<noteq> 8 \<and>
   (\<exists>r. analyze_emotion (fixed_env [] [0, 0, 0]) [] 16000 () () s0 = (s0, Inr r) \<and>
        all r = [(''angry'', 1 / 3), (''calm'', 1 / 3), (''disgust'', 1 / 3)] \<and>
        length (all r) = 3)"
proof -
  have h1: "feature_extractor_call (fixed_env [] [0, 0, 0]) () [] 16000 = Inr ()"
    by (simp add: fixed_env_def)
  have h2: "model_logits (fixed_env [] [0, 0, 0]) () () = Inr ([0, 0, 0] # [])"
    by (simp add: fixed_env_def)
  have h3: "[0, 0, 0 :: real] \<noteq> []" by simp
  have z: "zip EMOTIONS (softmax [0, 0, 0]) =
      [(''angry'', 1 / 3), (''calm'', 1 / 3), (''disgust'', 1 / 3)]"
    by (simp add: EMOTIONS_def softmax_def)
  from no_length_check [OF h1 h2 h3, of s0] obtain r where
    r: "analyze_emotion (fixed_env [] [0, 0, 0]) [] 16000 () () s0 = (s0, Inr r)"
       "all r = zip EMOTIONS (softmax [0, 0, 0])"
    by blast
  from r(2) have a: "all r = [(''angry'', 1 / 3), (''calm'', 1 / 3), (''disgust'', 1 / 3)]"
    by (simp only: z)
  then have "length (all r) = 3" by simp
  with r(1) a h1 h2 h3 show ?thesis by auto
qed

text \<open>
  Claim C3 as stated also covers a row of length 0, which is a length other than 8.
  There the dict of scores is empty, \<^verbatim>\<open>max\<close> raises ValueError, the handler of
  \<^verbatim>\<open>analyze_emotion\<close> prints the error and the process exits with status 1: no
  result is returned.
\<close>

theorem empty_logits_counterexample:
  "model_logits (fixed_env [] []) () () = Inr [[]] \<and>
   length ([] :: real list) \<noteq> 8 \<and>
   analyze_emotion (fixed_env [] []) [] 16000 () () s0 =
     (\<lparr>stdout = [],
       stderr = [Json (JObject [(''error'',
         JString ''Failed to analyze emotion: max() iterable argument is empty'')])]\<rparr>,
      Inl 1)"
  by (simp add: fixed_env_def analyze_emotion_def analyze_emotion_try_def softmax_def
        dict_comprehension_def py_max_def ValueError_max_def print_stderr_def s0_def)

subsection \<open>The runs of main, stage by stage\<close>

lemma load_model_stdout: "stdout (fst (load_model env s)) = stdout s"
  by (simp add: load_model_def print_stderr_def split: sum.splits)

lemma load_audio_stdout: "stdout (fst (load_audio env file_path target_sr s)) = stdout s"
  by (simp add: load_audio_def print_stderr_def split: sum.splits prod.splits)

lemma analyze_emotion_stdout:
  "stdout (fst (analyze_emotion env audio sample_rate fe m s)) = stdout s"
  by (simp add: analyze_emotion_def print_stderr_def split: sum.splits)

lemma main_usage:
  assumes "length argv \<noteq> 2"
  shows "main env argv =
     (\<lparr>stdout = [],
       stderr = [Json (JObject
         [(''error'', JString ''Usage: audio-emotion-analyzer.py <audio_file_path>'')])]\<rparr>,
      1)"
  using assms by (simp add: main_def print_stderr_def)

lemma main_model_fail:
  assumes "length argv = 2" and "load_model_try env = Inl e"
  shows "main env argv =
     (\<lparr>stdout = [],
       stderr = [Text ''Loading emotion recognition model...'',
                 Json (JObject
                   [(''error'', JString (''Failed to load model: '' @ str e)),
                    (''traceback'', JString (format_exc e))])]\<rparr>,
      1)"
  using assms by (simp add: main_def load_model_def print_stderr_def)

lemma main_audio_fail:
  assumes "length argv = 2" and "load_model_try env = Inr (fe, m)"
    and "librosa_load env (argv ! 1) 16000 = Inl e"
  shows "main env argv =
     (\<lparr>stdout = [],
       stderr = [Text ''Loading emotion recognition model...'',
                 Text (''Loading audio file: '' @ argv ! 1),
                 Json (JObject
                   [(''error'', JString (''Failed to load audio: '' @ str e))])]\<rparr>,
      1)"
  using assms by (simp add: main_def load_model_def load_audio_def print_stderr_def)

lemma main_inference_fail:
  assumes "length argv = 2" and "load_model_try env = Inr (fe, m)"
    and "librosa_load env (argv ! 1) 16000 = Inr (audio, sr)"
    and "analyze_emotion_try env audio sr fe m = Inl e"
  shows "main env argv =
     (\<lparr>stdout = [],
       stderr = [Text ''Loading emotion recognition model...'',
                 Text (''Loading audio file: '' @ argv ! 1),
                 Text ''Analyzing emotions...'',
                 Json (JObject
                   [(''error'', JString (''Failed to analyze emotion: '' @ str e))])]\<rparr>,
      1)"
  using assms
  by (simp add: main_def load_model_def load_audio_def analyze_emotion_def print_stderr_def)

lemma main_zero_rate:
  assumes "length argv = 2" and "load_model_try env = Inr (fe, m)"
    and "librosa_load env (argv ! 1) 16000 = Inr (audio, 0)"
    and "analyze_emotion_try env audio 0 fe m = Inr r"
  shows "main env argv =
     (\<lparr>stdout = [],
       stderr = [Text ''Loading emotion recognition model...'',
                 Text (''Loading audio file: '' @ argv ! 1),
                 Text ''Analyzing emotions...'',
                 Traceback ''ZeroDivisionError'']\<rparr>,
      1)"
  using assms
  by (simp add: main_def load_model_def load_audio_def analyze_emotion_def print_stderr_def)

lemma main_success:
  assumes "length argv = 2" and "load_model_try env = Inr (fe, m)"
    and "librosa_load env (argv ! 1) 16000 = Inr (audio, sr)"
    and "analyze_emotion_try env audio sr fe m = Inr r"
    and "sr \<noteq> 0"
  shows "main env argv =
     (\<lparr>stdout = [Json (JObject
                   [(''success'', JBool True),
                    (''emotion'', json_of_emotion r),
                    (''audio_duration'', JNumber (real (length audio) / sr))])],
       stderr = [Text ''Loading emotion recognition model...'',
                 Text (''Loading audio file: '' @ argv ! 1),
                 Text ''Analyzing emotions...'']\<rparr>,
      0)"
  using assms
  by (simp add: main_def load_model_def load_audio_def analyze_emotion_def print_stderr_def
        print_stdout_def)

lemma main_cases:
  obtains
    (usage) "length argv \<noteq> 2"
  | (model) e where "length argv = 2" "load_model_try env = Inl e"
  | (audio) fe m e where "length argv = 2" "load_model_try env = Inr (fe, m)"
      "librosa_load env (argv ! 1) 16000 = Inl e"
  | (inference) fe m audio sr e where "length argv = 2" "load_model_try env = Inr (fe, m)"
      "librosa_load env (argv ! 1) 16000 = Inr (audio, sr)"
      "analyze_emotion_try env audio sr fe m = Inl e"
  | (zero_rate) fe m audio r where "length argv = 2" "load_model_try env = Inr (fe, m)"
      "librosa_load env (argv ! 1) 16000 = Inr (audio, 0)"
      "analyze_emotion_try env audio 0 fe m = Inr r"
  | (success) fe m audio sr r where "length argv = 2" "load_model_try env = Inr (fe, m)"
      "librosa_load env (argv ! 1) 16000 = Inr (audio, sr)"
      "analyze_emotion_try env audio sr fe m = Inr r" "sr \<noteq> 0"
proof (cases "length argv = 2")
  case False
  then show ?thesis by (rule usage)
next
  case len: True
  show ?thesis
  proof (cases "load_model_try env")
    case (Inl e)
    with len show ?thesis by (rule model)
  next
    case (Inr fm)
    then obtain fe m where fm: "load_model_try env = Inr (fe, m)" by (cases fm) simp
    show ?thesis
    proof (cases "librosa_load env (argv ! 1) 16000")
      case (Inl e)
      with len fm show ?thesis by (rule audio)
    next
      case (Inr a)
      then obtain au sr where a: "librosa_load env (argv ! 1) 16000 = Inr (au, sr)"
        by (cases a) simp
      show ?thesis
      proof (cases "analyze_emotion_try env au sr fe m")
        case (Inl e)
        with len fm a show ?thesis by (rule inference)
      next
        case (Inr r)
        show ?thesis
        proof (cases "sr = 0")
          case True
          with len fm a Inr show ?thesis by (auto intro: zero_rate)
        next
          case False
          with len fm a Inr show ?thesis by (auto intro: success)
        qed
      qed
    qed
  qed
qed

lemma main_exit_0:
  assumes "snd (main env argv) = 0"
  obtains fe m audio sr r where "length argv = 2" "load_model_try env = Inr (fe, m)"
      "librosa_load env (argv ! 1) 16000 = Inr (audio, sr)"
      "analyze_emotion_try env audio sr fe m = Inr r" "sr \<noteq> 0"
proof (cases rule: main_cases [where argv = argv and env = env])
  case usage
  from main_usage [OF this, of env] assms show ?thesis by simp
next
  case (model e)
  from main_model_fail [OF this] assms show ?thesis by simp
next
  case (audio fe m e)
  from main_audio_fail [OF this] assms show ?thesis by simp
next
  case (inference fe m audio sr e)
  from main_inference_fail [OF this] assms show ?thesis by simp
next
  case (zero_rate fe m audio r)
  from main_zero_rate [OF this] assms show ?thesis by simp
next
  case (success fe m audio sr r)
  then show ?thesis by (rule that)
qed

lemma load_model_try_Inl:
  "load_model_try env = Inl e \<longleftrightarrow>
     fe_from_pretrained env MODEL_NAME = Inl e \<or>
     (\<exists>fe. fe_from_pretrained env MODEL_NAME = Inr fe \<and>
        (model_from_pretrained env MODEL_NAME = Inl e \<or>
         (\<exists>m. model_from_pretrained env MODEL_NAME = Inr m \<and> model_eval env m = Inl e)))"
  by (auto simp: load_model_try_def split: sum.splits)

subsection \<open>The claims about whole runs\<close>

text \<open>
  Claim C5. Invoked with no argument or with more than one (\<open>prog\<close> is
  \<^verbatim>\<open>sys.argv[0]\<close>, \<open>args\<close> the arguments after it), the process exits with status 1,
  its standard error holds the JSON usage-error object and nothing else, and its
  standard output is empty.
\<close>

theorem usage_error:
  assumes "length args \<noteq> 1"
  shows "main env (prog # args) =
     (\<lparr>stdout = [],
       stderr = [Json (JObject
         [(''error'', JString ''Usage: audio-emotion-analyzer.py <audio_file_path>'')])]\<rparr>,
      1)"
proof -
  from assms have "length (prog # args) \<noteq> 2" by simp
  then show ?thesis by (rule main_usage)
qed

theorem usage_error_witness:
  "length ([] :: string list) \<noteq> 1 \<and>
   main silence_env (''audio-emotion-analyzer.py'' # []) =
     (\<lparr>stdout = [],
       stderr = [Json (JObject
         [(''error'', JString ''Usage: audio-emotion-analyzer.py <audio_file_path>'')])]\<rparr>,
      1) \<and>
   length [''a.wav'', ''b.wav''] \<noteq> 1 \<and>
   main silence_env (''audio-emotion-analyzer.py'' # [''a.wav'', ''b.wav'']) =
     (\<lparr>stdout = [],
       stderr = [Json (JObject
         [(''error'', JString ''Usage: audio-emotion-analyzer.py <audio_file_path>'')])]\<rparr>,
      1)"
proof -
  have h0: "length ([] :: string list) \<noteq> 1" by simp
  have h2: "length [''a.wav'', ''b.wav''] \<noteq> 1" by simp
  from usage_error [OF h0, of silence_env "''audio-emotion-analyzer.py''"]
    usage_error [OF h2, of silence_env "''audio-emotion-analyzer.py''"] h0 h2
  show ?thesis by blast
qed

text \<open>
  Claim C8. Whenever one of the three calls of \<^verbatim>\<open>load_model\<close> raises an exception
  \<open>e\<close>, whatever it is, \<^verbatim>\<open>load_model\<close> writes to standard error a JSON object with
  the keys \<^verbatim>\<open>error\<close> (a message string built from \<open>str e\<close>) and \<^verbatim>\<open>traceback\<close> (the
  traceback string) and exits with status 1, and so does the whole run.
\<close>

theorem model_load_failure:
  assumes "fe_from_pretrained env MODEL_NAME = Inl e \<or>
     (\<exists>fe. fe_from_pretrained env MODEL_NAME = Inr fe \<and>
        (model_from_pretrained env MODEL_NAME = Inl e \<or>
         (\<exists>m. model_from_pretrained env MODEL_NAME = Inr m \<and> model_eval env m = Inl e)))"
  shows "load_model env s =
           (s\<lparr>stderr := stderr s @ [Json (JObject
                [(''error'', JString (''Failed to load model: '' @ str e)),
                 (''traceback'', JString (format_exc e))])]\<rparr>,
            Inl 1) \<and>
         main env [prog, audio_file] =
           (\<lparr>stdout = [],
             stderr = [Text ''Loading emotion recognition model...'',
                       Json (JObject
                         [(''error'', JString (''Failed to load model: '' @ str e)),
                          (''traceback'', JString (format_exc e))])]\<rparr>,
            1)"
proof -
  from assms have body: "load_model_try env = Inl e"
    by (simp only: load_model_try_Inl)
  then have "load_model env s =
           (s\<lparr>stderr := stderr s @ [Json (JObject
                [(''error'', JString (''Failed to load model: '' @ str e)),
                 (''traceback'', JString (format_exc e))])]\<rparr>,
            Inl 1)"
    by (simp add: load_model_def print_stderr_def)
  moreover have "length [prog, audio_file] = 2" by simp
  from main_model_fail [OF this body] have "main env [prog, audio_file] =
           (\<lparr>stdout = [],
             stderr = [Text ''Loading emotion recognition model...'',
                       Json (JObject
                         [(''error'', JString (''Failed to load model: '' @ str e)),
                          (''traceback'', JString (format_exc e))])]\<rparr>,
            1)" .
  ultimately show ?thesis by (rule conjI)
qed

theorem model_load_failure_witness:
  "fe_from_pretrained (offline_env connection_error) MODEL_NAME = Inr () \<and>
   model_from_pretrained (offline_env connection_error) MODEL_NAME = Inl connection_error \<and>
   main (offline_env connection_error) [''audio-emotion-analyzer.py'', ''a.wav''] =
     (\<lparr>stdout = [],
       stderr = [Text ''Loading emotion recognition model...'',
                 Json (JObject
                   [(''error'', JString ''Failed to load model: Connection error''),
                    (''traceback'', JString ''Traceback (most recent call last): OSError'')])]\<rparr>,
      1)"
proof -
  have h1: "fe_from_pretrained (offline_env connection_error) MODEL_NAME = Inr ()"
    by (simp add: offline_env_def fixed_env_def)
  have h2: "model_from_pretrained (offline_env connection_error) MODEL_NAME = Inl connection_error"
    by (simp add: offline_env_def fixed_env_def)
  from h1 h2 have h: "fe_from_pretrained (offline_env connection_error) MODEL_NAME = Inl connection_error \<or>
     (\<exists>fe. fe_from_pretrained (offline_env connection_error) MODEL_NAME = Inr fe \<and>
        (model_from_pretrained (offline_env connection_error) MODEL_NAME = Inl connection_error \<or>
         (\<exists>m. model_from_pretrained (offline_env connection_error) MODEL_NAME = Inr m \<and>
              model_eval (offline_env connection_error) m = Inl connection_error)))"
    by blast
  from model_load_failure [OF h, of s0 "''audio-emotion-analyzer.py''" "''a.wav''"]
  have "main (offline_env connection_error) [''audio-emotion-analyzer.py'', ''a.wav''] =
     (\<lparr>stdout = [],
       stderr = [Text ''Loading emotion recognition model...'',
                 Json (JObject
                   [(''error'', JString (''Failed to load model: '' @ str connection_error)),
                    (''traceback'', JString (format_exc connection_error))])]\<rparr>,
      1)" by (rule conjunct2)
  then have "main (offline_env connection_error) [''audio-emotion-analyzer.py'', ''a.wav''] =
     (\<lparr>stdout = [],
       stderr = [Text ''Loading emotion recognition model...'',
                 Json (JObject
                   [(''error'', JString ''Failed to load model: Connection error''),
                    (''traceback'', JString ''Traceback (most recent call last): OSError'')])]\<rparr>,
      1)" by (simp add: connection_error_def)
  with h1 h2 show ?thesis by blast
qed

text \<open>
  Claim C7. When the model loads, the audio file decodes (to a non-zero sample rate) and
  the analysis succeeds, the run ends with status 0 and its standard output is one line:
  the JSON object with exactly the keys \<^verbatim>\<open>success\<close>, \<^verbatim>\<open>emotion\<close> and
  \<^verbatim>\<open>audio_duration\<close>, in this order, with \<^verbatim>\<open>success\<close> true.
\<close>

theorem success_stdout:
  assumes "load_model_try env = Inr (fe, m)"
    and "librosa_load env audio_file 16000 = Inr (audio, sr)"
    and "sr \<noteq> 0"
    and "analyze_emotion_try env audio sr fe m = Inr r"
  shows "main env [prog, audio_file] =
     (\<lparr>stdout = [Json (JObject
                   [(''success'', JBool True),
                    (''emotion'', json_of_emotion r),
                    (''audio_duration'', JNumber (real (length audio) / sr))])],
       stderr = [Text ''Loading emotion recognition model...'',
                 Text (''Loading audio file: '' @ audio_file),
                 Text ''Analyzing emotions...'']\<rparr>,
      0)"
proof -
  have len: "length [prog, audio_file] = 2" by simp
  have arg: "[prog, audio_file] ! 1 = audio_file" by simp
  from assms(2) have a: "librosa_load env ([prog, audio_file] ! 1) 16000 = Inr (audio, sr)"
    by (simp only: arg)
  from main_success [OF len assms(1) a assms(4) assms(3)] show ?thesis
    by (simp only: arg)
qed

theorem success_stdout_witness:
  "load_model_try silence_env = Inr ((), ()) \<and>
   librosa_load silence_env ''a.wav'' 16000 = Inr (replicate 32000 0, 16000) \<and>
   (16000 :: real) \<noteq> 0 \<and>
   analyze_emotion_try silence_env (replicate 32000 0) 16000 () () = Inr uniform_result \<and>
   main silence_env [''audio-emotion-analyzer.py'', ''a.wav''] =
     (\<lparr>stdout = [Json (JObject
                   [(''success'', JBool True),
                    (''emotion'', json_of_emotion uniform_result),
                    (''audio_duration'', JNumber 2)])],
       stderr = [Text ''Loading emotion recognition model...'',
                 Text ''Loading audio file: a.wav'',
                 Text ''Analyzing emotions...'']\<rparr>,
      0)"
proof -
  have h1: "load_model_try silence_env = Inr ((), ())"
    by (simp add: silence_env_def load_model_try_fixed)
  have h2: "librosa_load silence_env ''a.wav'' 16000 = Inr (replicate 32000 0, 16000)"
    by (simp add: silence_env_def librosa_load_fixed)
  have h3: "(16000 :: real) \<noteq> 0" by simp
  have h4: "analyze_emotion_try silence_env (replicate 32000 0) 16000 () () = Inr uniform_result"
    by (rule analyze_emotion_try_silence)
  from success_stdout [OF h1 h2 h3 h4, of "''audio-emotion-analyzer.py''"]
  have "main silence_env [''audio-emotion-analyzer.py'', ''a.wav''] =
     (\<lparr>stdout = [Json (JObject
                   [(''success'', JBool True),
                    (''emotion'', json_of_emotion uniform_result),
                    (''audio_duration'', JNumber 2)])],
       stderr = [Text ''Loading emotion recognition model...'',
                 Text ''Loading audio file: a.wav'',
                 Text ''Analyzing emotions...'']\<rparr>,
      0)" by simp
  with h1 h2 h3 h4 show ?thesis by blast
qed

text \<open>
  Claim C10. \<^verbatim>\<open>load_model\<close>, \<^verbatim>\<open>load_audio\<close> and \<^verbatim>\<open>analyze_emotion\<close> never write to
  standard output, on success or on failure, and a run that ends with a non-zero status
  has written nothing to standard output.
\<close>

theorem stdout_empty_on_failure:
  "stdout (fst (load_model env s)) = stdout s \<and>
   stdout (fst (load_audio env file_path target_sr s)) = stdout s \<and>
   stdout (fst (analyze_emotion env audio sample_rate fe m s)) = stdout s \<and>
   (snd (main env argv) \<noteq> 0 \<longrightarrow> stdout (fst (main env argv)) = [])"
proof -
  have "stdout (fst (main env argv)) = []" if "snd (main env argv) \<noteq> 0"
  proof (cases rule: main_cases [where argv = argv and env = env])
    case usage
    from main_usage [OF this, of env] show ?thesis by simp
  next
    case (model e)
    from main_model_fail [OF this] show ?thesis by simp
  next
    case (audio fe m e)
    from main_audio_fail [OF this] show ?thesis by simp
  next
    case (inference fe m audio sr e)
    from main_inference_fail [OF this] show ?thesis by simp
  next
    case (zero_rate fe m audio r)
    from main_zero_rate [OF this] show ?thesis by simp
  next
    case (success fe m audio sr r)
    from main_success [OF this] that show ?thesis by simp
  qed
  then show ?thesis
    by (simp add: load_model_stdout load_audio_stdout analyze_emotion_stdout)
qed

theorem stdout_empty_on_failure_witness:
  "snd (main (unreadable_env connection_error) [''audio-emotion-analyzer.py'', ''a.wav'']) = 1 \<and>
   stdout (fst (main (unreadable_env connection_error)
     [''audio-emotion-analyzer.py'', ''a.wav''])) = [] \<and>
   snd (main (fixed_env [] []) [''audio-emotion-analyzer.py'', ''a.wav'']) = 1 \<and>
   stdout (fst (main (fixed_env [] []) [''audio-emotion-analyzer.py'', ''a.wav''])) = []"
proof -
  have len: "length [''audio-emotion-analyzer.py'', ''a.wav''] = 2" by simp
  have m1: "load_model_try (unreadable_env connection_error) = Inr ((), ())"
    by (simp add: unreadable_env_def load_model_try_def fixed_env_def)
  have a1: "librosa_load (unreadable_env connection_error)
      ([''audio-emotion-analyzer.py'', ''a.wav''] ! 1) 16000 = Inl connection_error"
    by (simp add: unreadable_env_def)
  have c1: "snd (main (unreadable_env connection_error)
      [''audio-emotion-analyzer.py'', ''a.wav'']) = 1"
    by (simp add: main_audio_fail [OF len m1 a1])
  have a2: "librosa_load (fixed_env [] []) ([''audio-emotion-analyzer.py'', ''a.wav''] ! 1) 16000
      = Inr ([], 16000)"
    by (simp add: librosa_load_fixed)
  have i2: "analyze_emotion_try (fixed_env [] []) [] 16000 () () = Inl ValueError_max"
    by (rule analyze_emotion_try_empty_row [where inputs = "()" and rest = "[]"])
       (simp_all add: fixed_env_def)
  have c2: "snd (main (fixed_env [] []) [''audio-emotion-analyzer.py'', ''a.wav'']) = 1"
    by (simp add: main_inference_fail [OF len load_model_try_fixed a2 i2])
  from stdout_empty_on_failure
    [of "unreadable_env connection_error" s0 "[]" 16000 "[]" 16000 "()" "()"
        "[''audio-emotion-analyzer.py'', ''a.wav'']"] c1
  have o1: "stdout (fst (main (unreadable_env connection_error)
     [''audio-emotion-analyzer.py'', ''a.wav''])) = []" by simp
  from stdout_empty_on_failure
    [of "fixed_env [] []" s0 "[]" 16000 "[]" 16000 "()" "()"
        "[''audio-emotion-analyzer.py'', ''a.wav'']"] c2
  have o2: "stdout (fst (main (fixed_env [] []) [''audio-emotion-analyzer.py'', ''a.wav''])) = []"
    by simp
  from c1 o1 c2 o2 show ?thesis by blast
qed

text \<open>
  Claim C4. Given that \<^verbatim>\<open>librosa.load\<close> returns the rate it was asked to resample to,
  in every run that ends with status 0 \<^verbatim>\<open>load_audio\<close> returned the waveform with the
  rate 16000, and the \<^verbatim>\<open>audio_duration\<close> of the JSON object on standard output is the
  number of samples of that waveform divided by 16000.
\<close>

theorem audio_duration_is_samples_over_16000:
  assumes "librosa_returns_target_sr env" and "main env argv = (s, 0)"
  shows "\<exists>audio sr emotion.
           load_audio env (argv ! 1) 16000 \<lparr>stdout = [], stderr = []\<rparr> =
             (\<lparr>stdout = [], stderr = []\<rparr>, Inr (audio, sr)) \<and>
           sr = 16000 \<and>
           stdout s = [Json (JObject
             [(''success'', JBool True),
              (''emotion'', emotion),
              (''audio_duration'', JNumber (real (length audio) / 16000))])]"
proof -
  from assms(2) have "snd (main env argv) = 0" by simp
  then obtain fe m audio sr r where
    len: "length argv = 2" and lm: "load_model_try env = Inr (fe, m)" and
    la: "librosa_load env (argv ! 1) 16000 = Inr (audio, sr)" and
    ae: "analyze_emotion_try env audio sr fe m = Inr r" and nz: "sr \<noteq> 0"
    by (rule main_exit_0)
  from assms(1) la have sr: "sr = 16000"
    unfolding librosa_returns_target_sr_def by blast
  from main_success [OF len lm la ae nz] assms(2)
  have out: "stdout s = [Json (JObject
             [(''success'', JBool True),
              (''emotion'', json_of_emotion r),
              (''audio_duration'', JNumber (real (length audio) / 16000))])]"
    by (auto simp: sr)
  from la have "load_audio env (argv ! 1) 16000 \<lparr>stdout = [], stderr = []\<rparr> =
             (\<lparr>stdout = [], stderr = []\<rparr>, Inr (audio, sr))"
    by (simp add: load_audio_def)
  with sr out show ?thesis by blast
qed

theorem audio_duration_witness:
  "librosa_returns_target_sr silence_env \<and>
   main silence_env [''audio-emotion-analyzer.py'', ''a.wav''] =
     (\<lparr>stdout = [Json (JObject
                   [(''success'', JBool True),
                    (''emotion'', json_of_emotion uniform_result),
                    (''audio_duration'', JNumber 2)])],
       stderr = [Text ''Loading emotion recognition model...'',
                 Text ''Loading audio file: a.wav'',
                 Text ''Analyzing emotions...'']\<rparr>,
      0) \<and>
   load_audio silence_env ''a.wav'' 16000 \<lparr>stdout = [], stderr = []\<rparr> =
     (\<lparr>stdout = [], stderr = []\<rparr>, Inr (replicate 32000 0, 16000)) \<and>
   real (length (replicate 32000 (0 :: real))) / 16000 = 2"
proof -
  have h1: "librosa_returns_target_sr silence_env"
    by (simp add: librosa_returns_target_sr_def silence_env_def fixed_env_def)
  have len: "length [''audio-emotion-analyzer.py'', ''a.wav''] = 2" by simp
  have lm: "load_model_try silence_env = Inr ((), ())"
    by (simp add: silence_env_def load_model_try_fixed)
  have la: "librosa_load silence_env ([''audio-emotion-analyzer.py'', ''a.wav''] ! 1) 16000
      = Inr (replicate 32000 0, 16000)"
    by (simp add: silence_env_def librosa_load_fixed)
  have nz: "(16000 :: real) \<noteq> 0" by simp
  from main_success [OF len lm la analyze_emotion_try_silence nz]
  have h2: "main silence_env [''audio-emotion-analyzer.py'', ''a.wav''] =
     (\<lparr>stdout = [Json (JObject
                   [(''success'', JBool True),
                    (''emotion'', json_of_emotion uniform_result),
                    (''audio_duration'', JNumber 2)])],
       stderr = [Text ''Loading emotion recognition model...'',
                 Text ''Loading audio file: a.wav'',
                 Text ''Analyzing emotions...'']\<rparr>,
      0)" by simp
  have la': "load_audio silence_env ''a.wav'' 16000 \<lparr>stdout = [], stderr = []\<rparr> =
     (\<lparr>stdout = [], stderr = []\<rparr>, Inr (replicate 32000 0, 16000))"
    using la by (simp add: load_audio_def)
  have d: "real (length (replicate 32000 (0 :: real))) / 16000 = 2" by simp
  from audio_duration_is_samples_over_16000 [OF h1 h2] h1 h2 la' d show ?thesis by blast
qed

text \<open>
  Claim C6. Each of the four failure classes (wrong argument count; an exception \<open>e\<close>
  raised while the model loads, while the audio loads, or during inference) is handled
  the same way. The function in which the exception occurs catches it, appends to
  standard error one JSON object whose first key is \<^verbatim>\<open>error\<close>, with a message that
  ends in \<open>str e\<close>, and exits with status 1. The whole run then has an empty standard
  output, a standard error that holds the progress notices of the stages reached and
  then that object, and the status 1: no later stage runs and nothing is retried.
\<close>

theorem failures_handled_alike:
  "(length argv \<noteq> 2 \<longrightarrow>
      main env argv =
        (\<lparr>stdout = [],
          stderr = map Text [] @
            [Json (JObject ((''error'',
               JString ''Usage: audio-emotion-analyzer.py <audio_file_path>'') # []))]\<rparr>,
         1)) \<and>
   (length argv = 2 \<and> load_model_try env = Inl e \<longrightarrow>
      load_model env s =
        (s\<lparr>stderr := stderr s @
            [Json (JObject ((''error'', JString (''Failed to load model: '' @ str e)) #
               [(''traceback'', JString (format_exc e))]))]\<rparr>,
         Inl 1) \<and>
      main env argv =
        (\<lparr>stdout = [],
          stderr = map Text [''Loading emotion recognition model...''] @
            [Json (JObject ((''error'', JString (''Failed to load model: '' @ str e)) #
               [(''traceback'', JString (format_exc e))]))]\<rparr>,
         1)) \<and>
   (length argv = 2 \<and> load_model_try env = Inr (fe, m) \<and>
    librosa_load env (argv ! 1) 16000 = Inl e \<longrightarrow>
      load_audio env (argv ! 1) 16000 s =
        (s\<lparr>stderr := stderr s @
            [Json (JObject ((''error'', JString (''Failed to load audio: '' @ str e)) # []))]\<rparr>,
         Inl 1) \<and>
      main env argv =
        (\<lparr>stdout = [],
          stderr = map Text [''Loading emotion recognition model...'',
                             ''Loading audio file: '' @ argv ! 1] @
            [Json (JObject ((''error'', JString (''Failed to load audio: '' @ str e)) # []))]\<rparr>,
         1)) \<and>
   (length argv = 2 \<and> load_model_try env = Inr (fe, m) \<and>
    librosa_load env (argv ! 1) 16000 = Inr (audio, sr) \<and>
    analyze_emotion_try env audio sr fe m = Inl e \<longrightarrow>
      analyze_emotion env audio sr fe m s =
        (s\<lparr>stderr := stderr s @
            [Json (JObject ((''error'', JString (''Failed to analyze emotion: '' @ str e)) # []))]\<rparr>,
         Inl 1) \<and>
      main env argv =
        (\<lparr>stdout = [],
          stderr = map Text [''Loading emotion recognition model...'',
                             ''Loading audio file: '' @ argv ! 1,
                             ''Analyzing emotions...''] @
            [Json (JObject ((''error'', JString (''Failed to analyze emotion: '' @ str e)) # []))]\<rparr>,
         1))"
proof (intro conjI impI)
  assume "length argv \<noteq> 2"
  from main_usage [OF this, of env]
  show "main env argv =
        (\<lparr>stdout = [],
          stderr = map Text [] @
            [Json (JObject ((''error'',
               JString ''Usage: audio-emotion-analyzer.py <audio_file_path>'') # []))]\<rparr>,
         1)"
    by simp
next
  assume a: "length argv = 2 \<and> load_model_try env = Inl e"
  then show "load_model env s =
        (s\<lparr>stderr := stderr s @
            [Json (JObject ((''error'', JString (''Failed to load model: '' @ str e)) #
               [(''traceback'', JString (format_exc e))]))]\<rparr>,
         Inl 1)"
    by (simp add: load_model_def print_stderr_def)
  from a have "length argv = 2" "load_model_try env = Inl e" by simp_all
  from main_model_fail [OF this]
  show "main env argv =
        (\<lparr>stdout = [],
          stderr = map Text [''Loading emotion recognition model...''] @
            [Json (JObject ((''error'', JString (''Failed to load model: '' @ str e)) #
               [(''traceback'', JString (format_exc e))]))]\<rparr>,
         1)"
    by simp
next
  assume a: "length argv = 2 \<and> load_model_try env = Inr (fe, m) \<and>
    librosa_load env (argv ! 1) 16000 = Inl e"
  then show "load_audio env (argv ! 1) 16000 s =
        (s\<lparr>stderr := stderr s @
            [Json (JObject ((''error'', JString (''Failed to load audio: '' @ str e)) # []))]\<rparr>,
         Inl 1)"
    by (simp add: load_audio_def print_stderr_def)
  from a have "length argv = 2" "load_model_try env = Inr (fe, m)"
    "librosa_load env (argv ! 1) 16000 = Inl e" by simp_all
  from main_audio_fail [OF this]
  show "main env argv =
        (\<lparr>stdout = [],
          stderr = map Text [''Loading emotion recognition model...'',
                             ''Loading audio file: '' @ argv ! 1] @
            [Json (JObject ((''error'', JString (''Failed to load audio: '' @ str e)) # []))]\<rparr>,
         1)"
    by simp
next
  assume a: "length argv = 2 \<and> load_model_try env = Inr (fe, m) \<and>
    librosa_load env (argv ! 1) 16000 = Inr (audio, sr) \<and>
    analyze_emotion_try env audio sr fe m = Inl e"
  then show "analyze_emotion env audio sr fe m s =
        (s\<lparr>stderr := stderr s @
            [Json (JObject ((''error'', JString (''Failed to analyze emotion: '' @ str e)) # []))]\<rparr>,
         Inl 1)"
    by (simp add: analyze_emotion_def print_stderr_def)
  from a have "length argv = 2" "load_model_try env = Inr (fe, m)"
    "librosa_load env (argv ! 1) 16000 = Inr (audio, sr)"
    "analyze_emotion_try env audio sr fe m = Inl e" by simp_all
  from main_inference_fail [OF this]
  show "main env argv =
        (\<lparr>stdout = [],
          stderr = map Text [''Loading emotion recognition model...'',
                             ''Loading audio file: '' @ argv ! 1,
                             ''Analyzing emotions...''] @
            [Json (JObject ((''error'', JString (''Failed to analyze emotion: '' @ str e)) # []))]\<rparr>,
         1)"
    by simp
qed

theorem failures_handled_alike_witness:
  "length [''audio-emotion-analyzer.py''] \<noteq> 2 \<and>
   main silence_env [''audio-emotion-analyzer.py''] =
     (\<lparr>stdout = [],
       stderr = [Json (JObject
         [(''error'', JString ''Usage: audio-emotion-analyzer.py <audio_file_path>'')])]\<rparr>,
      1) \<and>
   load_model_try (offline_env connection_error) = Inl connection_error \<and>
   main (offline_env connection_error) [''audio-emotion-analyzer.py'', ''a.wav''] =
     (\<lparr>stdout = [],
       stderr = [Text ''Loading emotion recognition model...'',
                 Json (JObject
                   [(''error'', JString ''Failed to load model: Connection error''),
                    (''traceback'', JString ''Traceback (most recent call last): OSError'')])]\<rparr>,
      1) \<and>
   librosa_load (unreadable_env connection_error) ''a.wav'' 16000 = Inl connection_error \<and>
   main (unreadable_env connection_error) [''audio-emotion-analyzer.py'', ''a.wav''] =
     (\<lparr>stdout = [],
       stderr = [Text ''Loading emotion recognition model...'',
                 Text ''Loading audio file: a.wav'',
                 Json (JObject
                   [(''error'', JString ''Failed to load audio: Connection error'')])]\<rparr>,
      1) \<and>
   analyze_emotion_try (fixed_env [] []) [] 16000 () () = Inl ValueError_max \<and>
   main (fixed_env [] []) [''audio-emotion-analyzer.py'', ''a.wav''] =
     (\<lparr>stdout = [],
       stderr = [Text ''Loading emotion recognition model...'',
                 Text ''Loading audio file: a.wav'',
                 Text ''Analyzing emotions...'',
                 Json (JObject
                   [(''error'',
                     JString ''Failed to analyze emotion: max() iterable argument is empty'')])]\<rparr>,
      1)"
proof -
  have u: "length [''audio-emotion-analyzer.py''] \<noteq> 2" by simp
  have len: "length [''audio-emotion-analyzer.py'', ''a.wav''] = 2" by simp
  have m: "load_model_try (offline_env connection_error) = Inl connection_error"
    by (simp add: offline_env_def load_model_try_def fixed_env_def)
  have m1: "load_model_try (unreadable_env connection_error) = Inr ((), ())"
    by (simp add: unreadable_env_def load_model_try_def fixed_env_def)
  have a: "librosa_load (unreadable_env connection_error) ''a.wav'' 16000 = Inl connection_error"
    by (simp add: unreadable_env_def)
  have a2: "librosa_load (fixed_env [] []) ''a.wav'' 16000 = Inr ([], 16000)"
    by (simp add: librosa_load_fixed)
  have i: "analyze_emotion_try (fixed_env [] []) [] 16000 () () = Inl ValueError_max"
    by (rule analyze_emotion_try_empty_row [where inputs = "()" and rest = "[]"])
       (simp_all add: fixed_env_def)
  have r1: "main silence_env [''audio-emotion-analyzer.py''] =
     (\<lparr>stdout = [],
       stderr = [Json (JObject
         [(''error'', JString ''Usage: audio-emotion-analyzer.py <audio_file_path>'')])]\<rparr>,
      1)"
    using failures_handled_alike [where argv = "[''audio-emotion-analyzer.py'']"
        and env = silence_env, THEN conjunct1] u
    by simp
  have r2: "main (offline_env connection_error) [''audio-emotion-analyzer.py'', ''a.wav''] =
     (\<lparr>stdout = [],
       stderr = [Text ''Loading emotion recognition model...'',
                 Json (JObject
                   [(''error'', JString ''Failed to load model: Connection error''),
                    (''traceback'', JString ''Traceback (most recent call last): OSError'')])]\<rparr>,
      1)"
    using failures_handled_alike [where argv = "[''audio-emotion-analyzer.py'', ''a.wav'']"
        and env = "offline_env connection_error" and e = connection_error,
        THEN conjunct2, THEN conjunct1] len m
    by (simp add: connection_error_def)
  have r3: "main (unreadable_env connection_error) [''audio-emotion-analyzer.py'', ''a.wav''] =
     (\<lparr>stdout = [],
       stderr = [Text ''Loading emotion recognition model...'',
                 Text ''Loading audio file: a.wav'',
                 Json (JObject
                   [(''error'', JString ''Failed to load audio: Connection error'')])]\<rparr>,
      1)"
    using failures_handled_alike [where argv = "[''audio-emotion-analyzer.py'', ''a.wav'']"
        and env = "unreadable_env connection_error" and e = connection_error
        and fe = "()" and m = "()",
        THEN conjunct2, THEN conjunct2, THEN conjunct1] len m1 a
    by (simp add: connection_error_def)
  have r4: "main (fixed_env [] []) [''audio-emotion-analyzer.py'', ''a.wav''] =
     (\<lparr>stdout = [],
       stderr = [Text ''Loading emotion recognition model...'',
                 Text ''Loading audio file: a.wav'',
                 Text ''Analyzing emotions...'',
                 Json (JObject
                   [(''error'',
                     JString ''Failed to analyze emotion: max() iterable argument is empty'')])]\<rparr>,
      1)"
    using failures_handled_alike [where argv = "[''audio-emotion-analyzer.py'', ''a.wav'']"
        and env = "fixed_env [] []" and e = ValueError_max
        and fe = "()" and m = "()" and audio = "[]" and sr = 16000,
        THEN conjunct2, THEN conjunct2, THEN conjunct2] len a2 i
      load_model_try_fixed [of "[]" "[]"]
    by (simp add: ValueError_max_def)
  from u r1 m r2 a r3 i r4 show ?thesis by (intro conjI)
qed

end
